theory Spec2Isabelle
  imports Main "HOL-Library.Multiset"
begin

section \<open>Python values, exceptions and responses\<close>

text \<open>
  The values that \<^verbatim>\<open>request.get_json()\<close> can hand to a handler and that
  \<^verbatim>\<open>jsonify\<close> serialises. A dict is kept as its list of items; \<open>map_of\<close> looks a key
  up. A float is carried as an opaque pair: no arithmetic is done on it. \<open>PDatetime\<close> is the
  value of the \<^verbatim>\<open>created_at\<close> column.
\<close>

datatype pyval =
    PNone
  | PBool bool
  | PInt int
  | PFloat int int
  | PStr string
  | PList "pyval list"
  | PDict "(string \<times> pyval) list"
  | PDatetime nat

text \<open>
  The exceptions the handlers can meet. \<open>NotNullViolation\<close> and \<open>UniqueViolation\<close> are the
  two subclasses of \<^verbatim>\<open>psycopg2.IntegrityError\<close> that the table of \<^verbatim>\<open>init_db\<close> can
  raise; \<open>DataError\<close> stands for every other error of the store (a value the column type
  rejects).
\<close>

datatype exn =
    TypeError
  | AttributeError
  | KeyError
  | NotNullViolation
  | UniqueViolation
  | DataError

definition is_IntegrityError :: "exn \<Rightarrow> bool" where
  "is_IntegrityError e = (e = NotNullViolation \<or> e = UniqueViolation)"

text \<open>A response is the pair Flask gets from a handler: the body given to jsonify, and the status.\<close>

type_synonym response = "pyval \<times> nat"

definition error_json :: "string \<Rightarrow> pyval" where
  "error_json msg = PDict [(''error'', PStr msg)]"

definition has_key :: "pyval \<Rightarrow> string \<Rightarrow> bool" where
  "has_key body k = (case body of PDict kvs \<Rightarrow> map_of kvs k \<noteq> None | _ \<Rightarrow> False)"

subsection \<open>The operators used on the payload\<close>

text \<open>\<^verbatim>\<open>s.startswith(k)\<close> and \<^verbatim>\<open>k in s\<close> on strings.\<close>

fun startswith :: "string \<Rightarrow> string \<Rightarrow> bool" where
  "startswith s [] = True"
| "startswith [] (k # ks) = False"
| "startswith (c # s) (k # ks) = (c = k \<and> startswith s ks)"

fun str_contains :: "string \<Rightarrow> string \<Rightarrow> bool" where
  "str_contains [] k = (k = [])"
| "str_contains (c # s) k = (startswith (c # s) k \<or> str_contains s k)"

text \<open>
  \<^verbatim>\<open>field in data\<close>: key membership on a dict, element equality on a list, substring on a
  string, and \<^verbatim>\<open>TypeError\<close> on a value that is not a container.
\<close>

fun py_in :: "string \<Rightarrow> pyval \<Rightarrow> exn + bool" where
  "py_in k (PDict kvs) = Inr (map_of kvs k \<noteq> None)"
| "py_in k (PList xs) = Inr (PStr k \<in> set xs)"
| "py_in k (PStr s) = Inr (str_contains s k)"
| "py_in k v = Inl TypeError"

text \<open>\<^verbatim>\<open>data[field]\<close> with a string key.\<close>

fun py_getitem :: "pyval \<Rightarrow> string \<Rightarrow> exn + pyval" where
  "py_getitem (PDict kvs) k = (case map_of kvs k of None \<Rightarrow> Inl KeyError | Some v \<Rightarrow> Inr v)"
| "py_getitem v k = Inl TypeError"

text \<open>\<^verbatim>\<open>data.get(field)\<close>: only a dict has the method.\<close>

fun py_get :: "pyval \<Rightarrow> string \<Rightarrow> exn + pyval" where
  "py_get (PDict kvs) k = Inr (case map_of kvs k of None \<Rightarrow> PNone | Some v \<Rightarrow> v)"
| "py_get v k = Inl AttributeError"

section \<open>The store\<close>

text \<open>
  A row of the table \<^verbatim>\<open>students\<close> of \<^verbatim>\<open>init_db\<close>. The four data columns are options,
  \<open>None\<close> being SQL NULL, so that NOT NULL is a property to prove and not a matter of typing.
\<close>

record student =
  sid :: int
  name :: "string option"
  email :: "string option"
  age :: "int option"
  course :: "string option"
  created_at :: nat

text \<open>
  The database: the rows in insertion order, the next value of the sequence behind
  \<^verbatim>\<open>id SERIAL\<close>, and the reading of the store's clock that \<^verbatim>\<open>CURRENT_TIMESTAMP\<close> gives.
\<close>

record database =
  students :: "student list"
  students_id_seq :: int
  clock :: nat

text \<open>
  The world outside the handlers: whether \<^verbatim>\<open>psycopg2.connect\<close> succeeds, the database, and
  the number of connection attempts made so far.
\<close>

record world =
  reachable :: bool
  db :: database
  connects :: nat

text \<open>
  An open connection holds a transaction: \<open>base\<close> is the table as last committed, \<open>cur\<close> the
  database as the transaction sees it. The sequence is not transactional, so it lives in \<open>cur\<close>
  and survives a rollback.
\<close>

record connection =
  base :: "student list"
  cur :: database

definition get_db_connection :: "world \<Rightarrow> connection option \<times> world" where
  "get_db_connection w =
     (let w1 = w\<lparr>connects := connects w + 1\<rparr>
      in if reachable w then (Some \<lparr>base = students (db w), cur = db w\<rparr>, w1) else (None, w1))"

definition commit :: "connection \<Rightarrow> connection" where
  "commit c = c\<lparr>base := students (cur c)\<rparr>"

definition rollback :: "connection \<Rightarrow> connection" where
  "rollback c = c\<lparr>cur := (cur c)\<lparr>students := base c\<rparr>\<rparr>"

text \<open>\<^verbatim>\<open>conn.close()\<close>: what was not committed is dropped.\<close>

definition close_conn :: "connection \<Rightarrow> world \<Rightarrow> world" where
  "close_conn c w = w\<lparr>db := (cur c)\<lparr>students := base c\<rparr>\<rparr>"

subsection \<open>Column types\<close>

text \<open>
  How the store turns a non-null Python value into a value of a \<^verbatim>\<open>VARCHAR(100)\<close> or an
  \<^verbatim>\<open>INTEGER\<close> column is the store's business and not in the source, so it is a parameter:
  \<open>None\<close> means the store rejects the value with an error that is not an integrity error.
  Python's \<^verbatim>\<open>None\<close> is sent as NULL, which every column type takes.
\<close>

record column_types =
  to_varchar :: "pyval \<Rightarrow> string option"
  to_integer :: "pyval \<Rightarrow> int option"

definition bind_varchar :: "column_types \<Rightarrow> pyval \<Rightarrow> exn + string option" where
  "bind_varchar pg v =
     (if v = PNone then Inr None
      else case to_varchar pg v of None \<Rightarrow> Inl DataError | Some s \<Rightarrow> Inr (Some s))"

definition bind_integer :: "column_types \<Rightarrow> pyval \<Rightarrow> exn + int option" where
  "bind_integer pg v =
     (if v = PNone then Inr None
      else case to_integer pg v of None \<Rightarrow> Inl DataError | Some n \<Rightarrow> Inr (Some n))"

type_synonym columns = "string option \<times> string option \<times> int option \<times> string option"

definition bind_values :: "column_types \<Rightarrow> pyval \<times> pyval \<times> pyval \<times> pyval \<Rightarrow> exn + columns" where
  "bind_values pg args =
     (case args of (vn, ve, va, vc) \<Rightarrow>
        (case bind_varchar pg vn of Inl x \<Rightarrow> Inl x | Inr n \<Rightarrow>
         (case bind_varchar pg ve of Inl x \<Rightarrow> Inl x | Inr e \<Rightarrow>
          (case bind_integer pg va of Inl x \<Rightarrow> Inl x | Inr a \<Rightarrow>
           (case bind_varchar pg vc of Inl x \<Rightarrow> Inl x | Inr c \<Rightarrow> Inr (n, e, a, c))))))"

definition has_null :: "columns \<Rightarrow> bool" where
  "has_null cols = (case cols of (n, e, a, c) \<Rightarrow> n = None \<or> e = None \<or> a = None \<or> c = None)"

subsection \<open>The five statements\<close>

text \<open>\<^verbatim>\<open>SELECT * FROM students ORDER BY id\<close>\<close>

definition select_all :: "connection \<Rightarrow> student list" where
  "select_all c = sort_key sid (students (cur c))"

text \<open>\<^verbatim>\<open>SELECT * FROM students WHERE id = %s\<close> followed by \<^verbatim>\<open>fetchone()\<close>\<close>

definition select_by_id :: "connection \<Rightarrow> int \<Rightarrow> student option" where
  "select_by_id c i = find (\<lambda>r. sid r = i) (students (cur c))"

text \<open>
  \<^verbatim>\<open>INSERT INTO students (name, email, age, course) VALUES (...) RETURNING *\<close>.
  The values are typed first; then the row is formed, which takes the next id from the
  sequence; then NOT NULL, the primary key and UNIQUE(email) are checked. A statement that
  fails changes no row.
\<close>

definition insert_returning ::
  "column_types \<Rightarrow> connection \<Rightarrow> pyval \<times> pyval \<times> pyval \<times> pyval \<Rightarrow> (exn + student) \<times> connection" where
  "insert_returning pg c args =
     (case bind_values pg args of
        Inl x \<Rightarrow> (Inl x, c)
      | Inr cols \<Rightarrow>
          (let d = cur c;
               i = students_id_seq d;
               c1 = c\<lparr>cur := d\<lparr>students_id_seq := i + 1\<rparr>\<rparr>
           in if has_null cols then (Inl NotNullViolation, c1)
              else (case cols of (n, e, a, co) \<Rightarrow>
                if i \<in> sid ` set (students d) \<or> e \<in> email ` set (students d)
                then (Inl UniqueViolation, c1)
                else (let r = \<lparr>sid = i, name = n, email = e, age = a, course = co,
                                created_at = clock d\<rparr>
                      in (Inr r, c1\<lparr>cur := (cur c1)\<lparr>students := students d @ [r]\<rparr>\<rparr>)))))"

text \<open>
  \<^verbatim>\<open>UPDATE students SET name = %s, email = %s, age = %s, course = %s WHERE id = %s RETURNING *\<close>.
  The result is the list of rows the statement returns.
\<close>

definition set_columns :: "columns \<Rightarrow> student \<Rightarrow> student" where
  "set_columns cols r =
     (case cols of (n, e, a, co) \<Rightarrow> r\<lparr>name := n, email := e, age := a, course := co\<rparr>)"

definition update_returning ::
  "column_types \<Rightarrow> connection \<Rightarrow> pyval \<times> pyval \<times> pyval \<times> pyval \<Rightarrow> int
     \<Rightarrow> (exn + student list) \<times> connection" where
  "update_returning pg c args i =
     (case bind_values pg args of
        Inl x \<Rightarrow> (Inl x, c)
      | Inr cols \<Rightarrow>
          (let rows = students (cur c)
           in if \<not> (\<exists>r \<in> set rows. sid r = i) then (Inr [], c)
              else if has_null cols then (Inl NotNullViolation, c)
              else if (\<exists>r \<in> set rows. sid r \<noteq> i \<and> email r = fst (snd cols))
                then (Inl UniqueViolation, c)
              else (let rows' = map (\<lambda>r. if sid r = i then set_columns cols r else r) rows
                    in (Inr (filter (\<lambda>r. sid r = i) rows'),
                        c\<lparr>cur := (cur c)\<lparr>students := rows'\<rparr>\<rparr>))))"

text \<open>\<^verbatim>\<open>DELETE FROM students WHERE id = %s\<close>, with \<^verbatim>\<open>cursor.rowcount\<close>\<close>

definition delete_by_id :: "connection \<Rightarrow> int \<Rightarrow> nat \<times> connection" where
  "delete_by_id c i =
     (let rows = students (cur c)
      in (length (filter (\<lambda>r. sid r = i) rows),
          c\<lparr>cur := (cur c)\<lparr>students := filter (\<lambda>r. sid r \<noteq> i) rows\<rparr>\<rparr>))"

section \<open>The handlers\<close>

text \<open>\<^verbatim>\<open>dict(student)\<close> of a RealDictCursor row: the columns in table order.\<close>

definition opt_str :: "string option \<Rightarrow> pyval" where
  "opt_str v = (case v of None \<Rightarrow> PNone | Some s \<Rightarrow> PStr s)"

definition opt_int :: "int option \<Rightarrow> pyval" where
  "opt_int v = (case v of None \<Rightarrow> PNone | Some n \<Rightarrow> PInt n)"

definition row_dict :: "student \<Rightarrow> pyval" where
  "row_dict r = PDict
     [(''id'', PInt (sid r)), (''name'', opt_str (name r)), (''email'', opt_str (email r)),
      (''age'', opt_int (age r)), (''course'', opt_str (course r)),
      (''created_at'', PDatetime (created_at r))]"

definition health_check :: "world \<Rightarrow> (exn + response) \<times> world" where
  "health_check w =
     (Inr (PDict [(''status'', PStr ''healthy''),
                  (''service'', PStr ''student-management-backend'')], 200), w)"

definition get_students :: "world \<Rightarrow> (exn + response) \<times> world" where
  "get_students w =
     (case get_db_connection w of
        (None, w1) \<Rightarrow> (Inr (error_json ''Database connection failed'', 500), w1)
      | (Some conn, w1) \<Rightarrow>
          (Inr (PList (map row_dict (select_all conn)), 200), close_conn conn w1))"

definition get_student :: "int \<Rightarrow> world \<Rightarrow> (exn + response) \<times> world" where
  "get_student student_id w =
     (case get_db_connection w of
        (None, w1) \<Rightarrow> (Inr (error_json ''Database connection failed'', 500), w1)
      | (Some conn, w1) \<Rightarrow>
          (case select_by_id conn student_id of
             Some s \<Rightarrow> (Inr (row_dict s, 200), close_conn conn w1)
           | None \<Rightarrow> (Inr (error_json ''Student not found'', 404), close_conn conn w1)))"

definition required_fields :: "string list" where
  "required_fields = [''name'', ''email'', ''age'', ''course'']"

text \<open>
  The validation loop of \<^verbatim>\<open>create_student\<close>: the first field that is not in the payload,
  or the exception that \<^verbatim>\<open>in\<close> raises.
\<close>

fun first_missing :: "pyval \<Rightarrow> string list \<Rightarrow> exn + string option" where
  "first_missing data [] = Inr None"
| "first_missing data (f # fs) =
     (case py_in f data of
        Inl x \<Rightarrow> Inl x
      | Inr b \<Rightarrow> if \<not> b then Inr (Some f) else first_missing data fs)"

text \<open>The argument tuple of the INSERT: four subscripts, evaluated inside the try block.\<close>

definition create_args :: "pyval \<Rightarrow> exn + pyval \<times> pyval \<times> pyval \<times> pyval" where
  "create_args data =
     (case py_getitem data ''name'' of Inl x \<Rightarrow> Inl x | Inr vn \<Rightarrow>
      (case py_getitem data ''email'' of Inl x \<Rightarrow> Inl x | Inr ve \<Rightarrow>
       (case py_getitem data ''age'' of Inl x \<Rightarrow> Inl x | Inr va \<Rightarrow>
        (case py_getitem data ''course'' of Inl x \<Rightarrow> Inl x | Inr vc \<Rightarrow> Inr (vn, ve, va, vc)))))"

text \<open>
  \<^verbatim>\<open>create_student\<close>. The validation loop runs before the connection is opened and outside
  the try block: an exception there leaves the handler (\<open>Inl\<close>).
\<close>

definition create_student :: "column_types \<Rightarrow> pyval \<Rightarrow> world \<Rightarrow> (exn + response) \<times> world" where
  "create_student pg data w =
     (case first_missing data required_fields of
        Inl x \<Rightarrow> (Inl x, w)
      | Inr (Some field) \<Rightarrow> (Inr (error_json (''Missing required field: '' @ field), 400), w)
      | Inr None \<Rightarrow>
          (case get_db_connection w of
             (None, w1) \<Rightarrow> (Inr (error_json ''Database connection failed'', 500), w1)
           | (Some conn, w1) \<Rightarrow>
               (case create_args data of
                  Inl x \<Rightarrow> (Inr (error_json ''Failed to create student'', 500),
                            close_conn (rollback conn) w1)
                | Inr args \<Rightarrow>
                    (case insert_returning pg conn args of
                       (Inr new_student, c1) \<Rightarrow>
                         (Inr (row_dict new_student, 201), close_conn (commit c1) w1)
                     | (Inl x, c1) \<Rightarrow>
                         if is_IntegrityError x
                         then (Inr (error_json ''Email already exists'', 409),
                               close_conn (rollback c1) w1)
                         else (Inr (error_json ''Failed to create student'', 500),
                               close_conn (rollback c1) w1)))))"

text \<open>The argument tuple of the UPDATE: four \<^verbatim>\<open>data.get\<close> calls.\<close>

definition update_args :: "pyval \<Rightarrow> exn + pyval \<times> pyval \<times> pyval \<times> pyval" where
  "update_args data =
     (case py_get data ''name'' of Inl x \<Rightarrow> Inl x | Inr vn \<Rightarrow>
      (case py_get data ''email'' of Inl x \<Rightarrow> Inl x | Inr ve \<Rightarrow>
       (case py_get data ''age'' of Inl x \<Rightarrow> Inl x | Inr va \<Rightarrow>
        (case py_get data ''course'' of Inl x \<Rightarrow> Inl x | Inr vc \<Rightarrow> Inr (vn, ve, va, vc)))))"

text \<open>
  \<^verbatim>\<open>update_student\<close>. \<^verbatim>\<open>dict(updated_student)\<close> comes after the commit; were
  \<^verbatim>\<open>fetchone()\<close> to give None there, the TypeError would be caught as any other exception.
\<close>

definition update_student ::
  "column_types \<Rightarrow> int \<Rightarrow> pyval \<Rightarrow> world \<Rightarrow> (exn + response) \<times> world" where
  "update_student pg student_id data w =
     (case get_db_connection w of
        (None, w1) \<Rightarrow> (Inr (error_json ''Database connection failed'', 500), w1)
      | (Some conn, w1) \<Rightarrow>
          (case select_by_id conn student_id of
             None \<Rightarrow> (Inr (error_json ''Student not found'', 404), close_conn conn w1)
           | Some s \<Rightarrow>
               (case update_args data of
                  Inl x \<Rightarrow> (Inr (error_json ''Failed to update student'', 500),
                            close_conn (rollback conn) w1)
                | Inr args \<Rightarrow>
                    (case update_returning pg conn args student_id of
                       (Inr updated, c1) \<Rightarrow>
                         (case updated of
                            [] \<Rightarrow> (Inr (error_json ''Failed to update student'', 500),
                                   close_conn (rollback (commit c1)) w1)
                          | updated_student # rest \<Rightarrow>
                              (Inr (row_dict updated_student, 200), close_conn (commit c1) w1))
                     | (Inl x, c1) \<Rightarrow>
                         if is_IntegrityError x
                         then (Inr (error_json ''Email already exists'', 409),
                               close_conn (rollback c1) w1)
                         else (Inr (error_json ''Failed to update student'', 500),
                               close_conn (rollback c1) w1)))))"

definition delete_student :: "int \<Rightarrow> world \<Rightarrow> (exn + response) \<times> world" where
  "delete_student student_id w =
     (case get_db_connection w of
        (None, w1) \<Rightarrow> (Inr (error_json ''Database connection failed'', 500), w1)
      | (Some conn, w1) \<Rightarrow>
          (case delete_by_id conn student_id of
             (rowcount, c1) \<Rightarrow>
               if rowcount = 0
               then (Inr (error_json ''Student not found'', 404), close_conn c1 w1)
               else (Inr (PDict [(''message'', PStr ''Student deleted successfully'')], 200),
                     close_conn (commit c1) w1)))"

section \<open>Routing and runs\<close>

text \<open>The routes of the application, and the handler each one reaches.\<close>

datatype request =
    Health
  | ListStudents
  | GetStudent int
  | CreateStudent pyval
  | UpdateStudent int pyval
  | DeleteStudent int

fun handle :: "column_types \<Rightarrow> request \<Rightarrow> world \<Rightarrow> (exn + response) \<times> world" where
  "handle pg Health w = health_check w"
| "handle pg ListStudents w = get_students w"
| "handle pg (GetStudent i) w = get_student i w"
| "handle pg (CreateStudent data) w = create_student pg data w"
| "handle pg (UpdateStudent i data) w = update_student pg i data w"
| "handle pg (DeleteStudent i) w = delete_student i w"

text \<open>
  Requests served one after the other. An exception that leaves a handler ends that request
  only: the process goes on with the next one.
\<close>

fun run :: "column_types \<Rightarrow> request list \<Rightarrow> world \<Rightarrow> (exn + response) list \<times> world" where
  "run pg [] w = ([], w)"
| "run pg (q # qs) w =
     (case handle pg q w of (r, w1) \<Rightarrow>
        (case run pg qs w1 of (rs, w2) \<Rightarrow> (r # rs, w2)))"

definition status :: "exn + response \<Rightarrow> nat option" where
  "status r = (case r of Inl x \<Rightarrow> None | Inr (body, st) \<Rightarrow> Some st)"

text \<open>The table named by the record \<open>world\<close>.\<close>

definition table :: "world \<Rightarrow> student list" where
  "table w = students (db w)"

text \<open>
  The constraints that the CREATE TABLE statement of \<^verbatim>\<open>init_db\<close> declares: the primary key,
  UNIQUE on email, and NOT NULL on the four data columns.
\<close>

definition not_null :: "student \<Rightarrow> bool" where
  "not_null r = (name r \<noteq> None \<and> email r \<noteq> None \<and> age r \<noteq> None \<and> course r \<noteq> None)"

definition table_ok :: "student list \<Rightarrow> bool" where
  "table_ok rows =
     (distinct (map sid rows) \<and> distinct (map email rows) \<and> list_all not_null rows)"

subsection \<open>Sample inputs\<close>

text \<open>
  A store that takes a str of at most 100 characters for a VARCHAR(100) column and an int in
  the 32-bit range for an INTEGER column, and nothing else; the database right after
  \<^verbatim>\<open>init_db\<close> has created the table; and the payload of the spec's end-to-end scenario.
\<close>

definition plain_types :: column_types where
  "plain_types =
     \<lparr>to_varchar = (\<lambda>v. case v of PStr s \<Rightarrow> if length s \<le> 100 then Some s else None | _ \<Rightarrow> None),
      to_integer = (\<lambda>v. case v of
                      PInt n \<Rightarrow> if - 2147483648 \<le> n \<and> n \<le> 2147483647 then Some n else None
                    | _ \<Rightarrow> None)\<rparr>"

definition fresh :: world where
  "fresh = \<lparr>reachable = True, db = \<lparr>students = [], students_id_seq = 1, clock = 0\<rparr>,
            connects = 0\<rparr>"

definition ann :: pyval where
  "ann = PDict [(''name'', PStr ''Ann''), (''email'', PStr ''ann@x.com''), (''age'', PInt 20),
                (''course'', PStr ''CS'')]"

definition ann_row :: student where
  "ann_row = \<lparr>sid = 1, name = Some ''Ann'', email = Some ''ann@x.com'', age = Some 20,
              course = Some ''CS'', created_at = 0\<rparr>"

text \<open>The world once Ann is stored: one row, and the sequence at 2.\<close>

definition ann_world :: world where
  "ann_world = \<lparr>reachable = True,
                db = \<lparr>students = [ann_row], students_id_seq = 2, clock = 0\<rparr>, connects = 1\<rparr>"

text \<open>A second student, and the world once both are stored.\<close>

definition bob :: pyval where
  "bob = PDict [(''name'', PStr ''Bob''), (''email'', PStr ''bob@x.com''), (''age'', PInt 22),
                (''course'', PStr ''EE'')]"

definition bob_row :: student where
  "bob_row = \<lparr>sid = 2, name = Some ''Bob'', email = Some ''bob@x.com'', age = Some 22,
              course = Some ''EE'', created_at = 0\<rparr>"

definition two_world :: world where
  "two_world = \<lparr>reachable = True,
                db = \<lparr>students = [ann_row, bob_row], students_id_seq = 3, clock = 0\<rparr>,
                connects = 2\<rparr>"

section \<open>Basic facts\<close>

lemma get_db_connection_reachable:
  "reachable w \<Longrightarrow> get_db_connection w =
     (Some \<lparr>base = students (db w), cur = db w\<rparr>, w\<lparr>connects := connects w + 1\<rparr>)"
  by (simp add: get_db_connection_def)

lemma first_missing_dict:
  "first_missing (PDict kvs) fs = Inr (find (\<lambda>f. map_of kvs f = None) fs)"
  by (induction fs) auto

lemma find_absent:
  "f \<in> set fs \<Longrightarrow> P f \<Longrightarrow> \<exists>g. find P fs = Some g"
  by (induction fs) auto

lemma create_student_400:
  assumes "find (\<lambda>f. map_of kvs f = None) required_fields = Some g"
  shows "create_student pg (PDict kvs) w =
           (Inr (error_json (''Missing required field: '' @ g), 400), w)"
  using assms by (simp add: create_student_def first_missing_dict)

lemma find_no_row: "(\<forall>r \<in> set rows. sid r \<noteq> i) \<Longrightarrow> find (\<lambda>r. sid r = i) rows = None"
  by (simp add: find_None_iff)

lemmas sample_defs =
  plain_types_def ann_def fresh_def ann_row_def ann_world_def required_fields_def
  bob_def bob_row_def two_world_def

lemmas handler_defs =
  create_student_def update_student_def delete_student_def get_student_def get_students_def
  get_db_connection_def create_args_def update_args_def insert_returning_def
  update_returning_def delete_by_id_def select_by_id_def select_all_def bind_values_def
  bind_varchar_def bind_integer_def has_null_def set_columns_def commit_def rollback_def
  close_conn_def Let_def

subsection \<open>What each statement and each handler can do to the table\<close>

lemma insert_returning_cases:
  assumes "insert_returning pg c args = (res, c')"
  shows "base c' = base c \<and>
         ((\<exists>x. res = Inl x \<and> students (cur c') = students (cur c)) \<or>
          (\<exists>r. res = Inr r \<and> students (cur c') = students (cur c) @ [r] \<and>
               sid r \<notin> sid ` set (students (cur c)) \<and>
               email r \<notin> email ` set (students (cur c)) \<and> not_null r))"
proof (cases "bind_values pg args")
  case (Inl x)
  with assms show ?thesis by (auto simp: insert_returning_def)
next
  case (Inr cols)
  obtain n e a co where cols: "cols = (n, e, a, co)" by (cases cols) auto
  show ?thesis
  proof (cases "has_null cols")
    case True
    with assms Inr show ?thesis by (auto simp: insert_returning_def Let_def)
  next
    case False
    with assms Inr cols show ?thesis
      by (auto simp: insert_returning_def Let_def has_null_def not_null_def split: if_splits)
  qed
qed

lemma update_returning_cases:
  assumes "update_returning pg c args i = (res, c')"
  shows "base c' = base c \<and> students_id_seq (cur c') = students_id_seq (cur c) \<and>
         clock (cur c') = clock (cur c) \<and>
         ((\<exists>x. res = Inl x \<and> c' = c) \<or>
          (res = Inr [] \<and> c' = c \<and> (\<forall>r \<in> set (students (cur c)). sid r \<noteq> i)) \<or>
          (\<exists>cols. bind_values pg args = Inr cols \<and> \<not> has_null cols \<and>
               (\<forall>r \<in> set (students (cur c)). sid r \<noteq> i \<longrightarrow> email r \<noteq> fst (snd cols)) \<and>
               students (cur c') =
                 map (\<lambda>r. if sid r = i then set_columns cols r else r) (students (cur c)) \<and>
               res = Inr (filter (\<lambda>r. sid r = i) (students (cur c')))))"
proof (cases "bind_values pg args")
  case (Inl x)
  with assms show ?thesis by (auto simp: update_returning_def)
next
  case (Inr cols)
  with assms show ?thesis
    by (auto simp: update_returning_def Let_def split: if_splits)
qed

lemma delete_by_id_eq:
  "delete_by_id c i =
     (length (filter (\<lambda>r. sid r = i) (students (cur c))),
      c\<lparr>cur := (cur c)\<lparr>students := filter (\<lambda>r. sid r \<noteq> i) (students (cur c))\<rparr>\<rparr>)"
  by (simp add: delete_by_id_def Let_def)


lemma create_student_cases:
  "(\<exists>x. create_student pg data w = (Inl x, w)) \<or>
   (\<exists>msg st. fst (create_student pg data w) = Inr (error_json msg, st) \<and>
      (st = 400 \<or> st = 409 \<or> st = 500) \<and>
      table (snd (create_student pg data w)) = table w) \<or>
   (\<exists>r. fst (create_student pg data w) = Inr (row_dict r, 201) \<and>
      table (snd (create_student pg data w)) = table w @ [r] \<and>
      sid r \<notin> sid ` set (table w) \<and> email r \<notin> email ` set (table w) \<and> not_null r)"
proof (cases "first_missing data required_fields")
  case (Inl x)
  then show ?thesis by (auto simp: create_student_def)
next
  case (Inr m)
  show ?thesis
  proof (cases m)
    case (Some f)
    with Inr show ?thesis by (auto simp: create_student_def table_def)
  next
    case None
    note fm = Inr [unfolded None]
    show ?thesis
    proof (cases "reachable w")
      case False
      with fm show ?thesis
        by (auto simp: create_student_def get_db_connection_def table_def)
    next
      case True
      let ?c = "\<lparr>base = students (db w), cur = db w\<rparr>"
      show ?thesis
      proof (cases "create_args data")
        case (Inl x)
        with fm True show ?thesis
          by (auto simp: create_student_def get_db_connection_def table_def rollback_def
                close_conn_def)
      next
        case (Inr args)
        obtain res c' where ins: "insert_returning pg ?c args = (res, c')"
          by (cases "insert_returning pg ?c args") auto
        from insert_returning_cases [OF ins]
        have b: "base c' = students (db w)"
          and d: "(\<exists>x. res = Inl x \<and> students (cur c') = students (db w)) \<or>
          (\<exists>r. res = Inr r \<and> students (cur c') = students (db w) @ [r] \<and>
               sid r \<notin> sid ` set (students (db w)) \<and>
               email r \<notin> email ` set (students (db w)) \<and> not_null r)"
          by simp_all
        from d show ?thesis
        proof
          assume "\<exists>x. res = Inl x \<and> students (cur c') = students (db w)"
          then obtain x where "res = Inl x" by blast
          with fm True Inr ins b show ?thesis
            by (auto simp: create_student_def get_db_connection_def table_def rollback_def
                  close_conn_def)
        next
          assume "\<exists>r. res = Inr r \<and> students (cur c') = students (db w) @ [r] \<and>
               sid r \<notin> sid ` set (students (db w)) \<and>
               email r \<notin> email ` set (students (db w)) \<and> not_null r"
          then obtain r where "res = Inr r" "students (cur c') = students (db w) @ [r]"
            "sid r \<notin> sid ` set (students (db w))"
            "email r \<notin> email ` set (students (db w))" "not_null r" by blast
          with fm True Inr ins b show ?thesis
            by (auto simp: create_student_def get_db_connection_def table_def commit_def
                  close_conn_def)
        qed
      qed
    qed
  qed
qed


lemma filter_updated_row:
  "find (\<lambda>r. sid r = i) rows = Some s \<Longrightarrow>
   \<exists>rest. filter (\<lambda>r. sid r = i) (map (\<lambda>r. if sid r = i then set_columns cols r else r) rows)
           = set_columns cols s # rest"
proof (induction rows)
  case Nil
  then show ?case by simp
next
  case (Cons x xs)
  then show ?case by (cases cols) (auto simp: set_columns_def)
qed

lemma update_student_cases:
  "(\<exists>msg st. fst (update_student pg i data w) = Inr (error_json msg, st) \<and>
      (st = 404 \<or> st = 409 \<or> st = 500) \<and>
      table (snd (update_student pg i data w)) = table w) \<or>
   (\<exists>r cols. fst (update_student pg i data w) = Inr (row_dict r, 200) \<and>
      \<not> has_null cols \<and> (\<forall>r' \<in> set (table w). sid r' \<noteq> i \<longrightarrow> email r' \<noteq> fst (snd cols)) \<and>
      table (snd (update_student pg i data w)) =
        map (\<lambda>r. if sid r = i then set_columns cols r else r) (table w))"
proof (cases "reachable w")
  case False
  then show ?thesis by (auto simp: update_student_def get_db_connection_def table_def)
next
  case True
  let ?c = "\<lparr>base = students (db w), cur = db w\<rparr>"
  show ?thesis
  proof (cases "find (\<lambda>r. sid r = i) (students (db w))")
    case None
    with True show ?thesis
      by (auto simp: update_student_def get_db_connection_def table_def select_by_id_def
            close_conn_def)
  next
    case (Some s)
    show ?thesis
    proof (cases "update_args data")
      case (Inl x)
      with True Some show ?thesis
        by (auto simp: update_student_def get_db_connection_def table_def select_by_id_def
              close_conn_def rollback_def)
    next
      case (Inr args)
      obtain res c' where upd: "update_returning pg ?c args i = (res, c')"
        by (cases "update_returning pg ?c args i") auto
      from update_returning_cases [OF upd]
      have b: "base c' = students (db w)"
        and d: "(\<exists>x. res = Inl x \<and> c' = ?c) \<or>
          (res = Inr [] \<and> c' = ?c \<and> (\<forall>r \<in> set (students (db w)). sid r \<noteq> i)) \<or>
          (\<exists>cols. bind_values pg args = Inr cols \<and> \<not> has_null cols \<and>
               (\<forall>r \<in> set (students (db w)). sid r \<noteq> i \<longrightarrow> email r \<noteq> fst (snd cols)) \<and>
               students (cur c') =
                 map (\<lambda>r. if sid r = i then set_columns cols r else r) (students (db w)) \<and>
               res = Inr (filter (\<lambda>r. sid r = i) (students (cur c'))))"
        by simp_all
      from d consider
          (err) x where "res = Inl x" "c' = ?c"
        | (none) "res = Inr []" "c' = ?c"
        | (ok) cols where "\<not> has_null cols"
            "\<forall>r \<in> set (students (db w)). sid r \<noteq> i \<longrightarrow> email r \<noteq> fst (snd cols)"
            "students (cur c') =
               map (\<lambda>r. if sid r = i then set_columns cols r else r) (students (db w))"
            "res = Inr (filter (\<lambda>r. sid r = i) (students (cur c')))"
        by blast
      then show ?thesis
      proof cases
        case err
        with True Some Inr upd show ?thesis
          by (auto simp: update_student_def get_db_connection_def table_def select_by_id_def
                close_conn_def rollback_def)
      next
        case none
        with True Some Inr upd show ?thesis
          by (auto simp: update_student_def get_db_connection_def table_def select_by_id_def
                close_conn_def rollback_def commit_def)
      next
        case ok
        from filter_updated_row [OF Some, of cols] ok(3,4)
        obtain rest where res: "res = Inr (set_columns cols s # rest)" by auto
        have "fst (update_student pg i data w) = Inr (row_dict (set_columns cols s), 200)"
          using True Some Inr upd res
          by (auto simp: update_student_def get_db_connection_def select_by_id_def)
        moreover have "table (snd (update_student pg i data w)) =
            map (\<lambda>r. if sid r = i then set_columns cols r else r) (table w)"
          using True Some Inr upd res ok(3)
          by (auto simp: update_student_def get_db_connection_def select_by_id_def table_def
                close_conn_def commit_def)
        moreover have "\<forall>r' \<in> set (table w). sid r' \<noteq> i \<longrightarrow> email r' \<noteq> fst (snd cols)"
          using ok(2) by (simp add: table_def)
        ultimately show ?thesis using ok(1) by blast
      qed
    qed
  qed
qed

lemma delete_student_cases:
  "(\<exists>msg st. fst (delete_student i w) = Inr (error_json msg, st) \<and>
      (st = 404 \<or> st = 500) \<and> table (snd (delete_student i w)) = table w) \<or>
   (fst (delete_student i w) = Inr (PDict [(''message'', PStr ''Student deleted successfully'')], 200) \<and>
      table (snd (delete_student i w)) = filter (\<lambda>r. sid r \<noteq> i) (table w))"
proof (cases "reachable w")
  case False
  then show ?thesis by (auto simp: delete_student_def get_db_connection_def table_def)
next
  case True
  then show ?thesis
    by (auto simp: delete_student_def get_db_connection_def table_def delete_by_id_eq
          close_conn_def commit_def)
qed

subsection \<open>The constraints of the table are kept\<close>

lemma sid_set_columns [simp]: "sid (set_columns cols r) = sid r"
  by (cases cols) (simp add: set_columns_def)

lemma email_set_columns [simp]: "email (set_columns cols r) = fst (snd cols)"
  by (cases cols) (simp add: set_columns_def)

lemma not_null_set_columns: "\<not> has_null cols \<Longrightarrow> not_null (set_columns cols r)"
  by (cases cols) (simp add: set_columns_def has_null_def not_null_def)

lemma table_ok_append:
  "table_ok rows \<Longrightarrow> sid r \<notin> sid ` set rows \<Longrightarrow> email r \<notin> email ` set rows \<Longrightarrow> not_null r
   \<Longrightarrow> table_ok (rows @ [r])"
  by (simp add: table_ok_def)

lemma table_ok_filter: "table_ok rows \<Longrightarrow> table_ok (filter P rows)"
  by (simp add: table_ok_def distinct_map_filter list_all_iff)

lemma map_unchanged:
  "\<forall>r \<in> set rows. sid r \<noteq> i \<Longrightarrow> map (\<lambda>r. if sid r = i then f r else r) rows = rows"
  by (induction rows) auto

lemma distinct_email_update:
  assumes "distinct (map sid rows)" and "distinct (map email rows)"
    and "\<forall>r \<in> set rows. sid r \<noteq> i \<longrightarrow> email r \<noteq> fst (snd cols)"
  shows "distinct (map email (map (\<lambda>r. if sid r = i then set_columns cols r else r) rows))"
  using assms
proof (induction rows)
  case Nil
  then show ?case by simp
next
  case (Cons x xs)
  show ?case
  proof (cases "sid x = i")
    case True
    from Cons.prems(1) have "sid x \<notin> sid ` set xs" by simp
    with True have no: "\<forall>r \<in> set xs. sid r \<noteq> i" by (metis imageI)
    with Cons.prems have "fst (snd cols) \<notin> email ` set xs" by auto
    with True Cons.prems show ?thesis by (simp add: map_unchanged [OF no])
  next
    case False
    with Cons.prems have a: "email x \<noteq> fst (snd cols)" and b: "email x \<notin> email ` set xs"
      by simp_all
    have "email x \<noteq> email (if sid r = i then set_columns cols r else r)" if "r \<in> set xs" for r
      using a b that by (cases "sid r = i") (simp_all add: image_iff)
    then have "email x \<notin> set (map email (map (\<lambda>r. if sid r = i then set_columns cols r else r) xs))"
      by auto
    moreover have "distinct (map email (map (\<lambda>r. if sid r = i then set_columns cols r else r) xs))"
      using Cons by simp
    ultimately show ?thesis using False by simp
  qed
qed

lemma table_ok_update:
  assumes "table_ok rows" and "\<not> has_null cols"
    and "\<forall>r \<in> set rows. sid r \<noteq> i \<longrightarrow> email r \<noteq> fst (snd cols)"
  shows "table_ok (map (\<lambda>r. if sid r = i then set_columns cols r else r) rows)"
proof -
  let ?f = "\<lambda>r. if sid r = i then set_columns cols r else r"
  have "map sid (map ?f rows) = map sid rows" by (induction rows) auto
  with assms(1) have ids: "distinct (map sid (map ?f rows))"
    by (simp only: table_ok_def)
  have nn: "list_all not_null (map ?f rows)"
    using assms(1,2) by (auto simp: table_ok_def list_all_iff not_null_set_columns)
  have em: "distinct (map email (map ?f rows))"
    using assms by (intro distinct_email_update) (simp_all add: table_ok_def)
  from ids nn em show ?thesis unfolding table_ok_def by blast
qed

lemma table_ok_create: "table_ok (table w) \<Longrightarrow> table_ok (table (snd (create_student pg data w)))"
  using create_student_cases [of pg data w] by (auto intro: table_ok_append)

lemma table_ok_update_student:
  assumes "table_ok (table w)"
  shows "table_ok (table (snd (update_student pg i data w)))"
  using update_student_cases [of pg i data w]
proof
  assume "\<exists>msg st. fst (update_student pg i data w) = Inr (error_json msg, st) \<and>
      (st = 404 \<or> st = 409 \<or> st = 500) \<and>
      table (snd (update_student pg i data w)) = table w"
  with assms show ?thesis by auto
next
  assume "\<exists>r cols. fst (update_student pg i data w) = Inr (row_dict r, 200) \<and>
      \<not> has_null cols \<and> (\<forall>r' \<in> set (table w). sid r' \<noteq> i \<longrightarrow> email r' \<noteq> fst (snd cols)) \<and>
      table (snd (update_student pg i data w)) =
        map (\<lambda>r. if sid r = i then set_columns cols r else r) (table w)"
  then obtain cols where "\<not> has_null cols"
    "\<forall>r' \<in> set (table w). sid r' \<noteq> i \<longrightarrow> email r' \<noteq> fst (snd cols)"
    "table (snd (update_student pg i data w)) =
        map (\<lambda>r. if sid r = i then set_columns cols r else r) (table w)"
    by blast
  with table_ok_update [OF assms, of cols i] show ?thesis by simp
qed

lemma table_ok_delete: "table_ok (table w) \<Longrightarrow> table_ok (table (snd (delete_student i w)))"
  using delete_student_cases [of i w] by (auto intro: table_ok_filter)

lemma get_students_table: "table (snd (get_students w)) = table w"
  by (simp add: get_students_def get_db_connection_def close_conn_def table_def Let_def)

lemma get_student_table: "table (snd (get_student i w)) = table w"
  by (simp add: get_student_def get_db_connection_def close_conn_def table_def Let_def
        split: option.splits)

lemma table_ok_handle: "table_ok (table w) \<Longrightarrow> table_ok (table (snd (handle pg q w)))"
  by (cases q)
     (simp_all add: table_ok_create table_ok_update_student table_ok_delete health_check_def
        get_students_table get_student_table)

lemma table_ok_run: "table_ok (table w) \<Longrightarrow> table_ok (table (snd (run pg qs w)))"
proof (induction qs arbitrary: w)
  case Nil
  then show ?case by simp
next
  case (Cons q qs)
  obtain r w1 where h: "handle pg q w = (r, w1)" by (cases "handle pg q w") auto
  with Cons.prems table_ok_handle [of w pg q] have "table_ok (table w1)" by simp
  from Cons.IH [OF this] h show ?case by (auto split: prod.splits)
qed

subsection \<open>Get and delete\<close>

lemma find_filter_other:
  "j \<noteq> i \<Longrightarrow> find (\<lambda>r. sid r = j) (filter (\<lambda>r. sid r \<noteq> i) rows) = find (\<lambda>r. sid r = j) rows"
  by (induction rows) auto

lemma find_filter_same: "find (\<lambda>r. sid r = i) (filter (\<lambda>r. sid r \<noteq> i) rows) = None"
  by (simp add: find_None_iff)

lemma get_student_eq:
  "reachable w \<Longrightarrow> fst (get_student i w) =
     (case find (\<lambda>r. sid r = i) (table w) of
        Some s \<Rightarrow> Inr (row_dict s, 200)
      | None \<Rightarrow> Inr (error_json ''Student not found'', 404))"
  by (simp add: get_student_def get_db_connection_def select_by_id_def table_def
        split: option.splits)

lemma reachable_delete: "reachable (snd (delete_student i w)) = reachable w"
  by (simp add: delete_student_def get_db_connection_def delete_by_id_eq close_conn_def Let_def)

lemma delete_student_eq:
  "reachable w \<Longrightarrow> delete_student i w =
     (if filter (\<lambda>r. sid r = i) (table w) = []
      then (Inr (error_json ''Student not found'', 404),
            w\<lparr>connects := connects w + 1, db := db w\<rparr>)
      else (Inr (PDict [(''message'', PStr ''Student deleted successfully'')], 200),
            w\<lparr>connects := connects w + 1,
              db := (db w)\<lparr>students := filter (\<lambda>r. sid r \<noteq> i) (table w)\<rparr>\<rparr>))"
  by (simp add: delete_student_def get_db_connection_def delete_by_id_eq close_conn_def
        commit_def table_def)

subsection \<open>Runs of create requests\<close>

lemma reachable_close_conn [simp]: "reachable (close_conn c w) = reachable w"
  by (simp add: close_conn_def)

lemma reachable_create: "reachable (snd (create_student pg data w)) = reachable w"
  by (simp add: create_student_def get_db_connection_def Let_def
        split: sum.splits option.splits prod.splits)

lemma create_student_201:
  assumes "status (fst (create_student pg data w)) = Some 201"
  shows "\<exists>r. fst (create_student pg data w) = Inr (row_dict r, 201) \<and>
      table (snd (create_student pg data w)) = table w @ [r] \<and>
      sid r \<notin> sid ` set (table w) \<and> email r \<notin> email ` set (table w) \<and> not_null r"
  using create_student_cases [of pg data w] assms
  by (auto simp: status_def)

lemma run_creates:
  assumes "run pg (map CreateStudent ds) w0 = (rs, w)"
    and "list_all (\<lambda>r. status r = Some 201) rs"
    and "distinct (map sid (table w0))"
  shows "length (table w) = length (table w0) + length ds \<and> distinct (map sid (table w)) \<and>
         reachable w = reachable w0"
  using assms
proof (induction ds arbitrary: w0 rs w)
  case Nil
  then show ?case by simp
next
  case (Cons d ds)
  obtain r w1 where h: "create_student pg d w0 = (r, w1)"
    by (cases "create_student pg d w0") auto
  obtain rs' w2 where t: "run pg (map CreateStudent ds) w1 = (rs', w2)"
    by (cases "run pg (map CreateStudent ds) w1") auto
  from Cons.prems(1) h t have eq: "rs = r # rs'" "w = w2" by auto
  with Cons.prems(2) have r201: "status r = Some 201"
    and rest: "list_all (\<lambda>r. status r = Some 201) rs'" by auto
  from create_student_201 [of pg d w0] h r201
  obtain row where row: "table w1 = table w0 @ [row]" "sid row \<notin> sid ` set (table w0)"
    by auto
  with Cons.prems(3) have d1: "distinct (map sid (table w1))" by simp
  from reachable_create [of pg d w0] h have "reachable w1 = reachable w0" by simp
  with Cons.IH [OF t rest d1] row(1) eq show ?case by simp
qed

lemma get_students_eq:
  "reachable w \<Longrightarrow> fst (get_students w) = Inr (PList (map row_dict (sort_key sid (table w))), 200)"
  by (simp add: get_students_def get_db_connection_def select_all_def table_def)

lemma create_ann: "create_student plain_types ann fresh = (Inr (row_dict ann_row, 201), ann_world)"
  by (simp add: handler_defs sample_defs)

lemma create_bob:
  "create_student plain_types bob ann_world = (Inr (row_dict bob_row, 201), two_world)"
  by (simp add: handler_defs sample_defs)

subsection \<open>Outcomes of the UPDATE\<close>

lemma find_sid_ex: "(\<exists>r \<in> set rows. sid r = i) \<Longrightarrow> \<exists>s. find (\<lambda>r. sid r = i) rows = Some s"
  by (induction rows) auto

lemma bind_varchar_PNone [simp]: "bind_varchar pg PNone = Inr None"
  by (simp add: bind_varchar_def)

lemma bind_integer_PNone [simp]: "bind_integer pg PNone = Inr None"
  by (simp add: bind_integer_def)

lemma bind_values_Inr:
  "bind_values pg (vn, ve, va, vc) = Inr cols \<longleftrightarrow>
     (\<exists>n e a c. bind_varchar pg vn = Inr n \<and> bind_varchar pg ve = Inr e \<and>
        bind_integer pg va = Inr a \<and> bind_varchar pg vc = Inr c \<and> cols = (n, e, a, c))"
  by (auto simp: bind_values_def split: sum.splits)

lemma bind_values_Inl: "bind_values pg args = Inl x \<Longrightarrow> x = DataError"
  by (cases args)
     (auto simp: bind_values_def bind_varchar_def bind_integer_def
        split: sum.splits if_splits option.splits)

lemma update_args_dict:
  "update_args (PDict kvs) =
     Inr (case map_of kvs ''name'' of None \<Rightarrow> PNone | Some v \<Rightarrow> v,
          case map_of kvs ''email'' of None \<Rightarrow> PNone | Some v \<Rightarrow> v,
          case map_of kvs ''age'' of None \<Rightarrow> PNone | Some v \<Rightarrow> v,
          case map_of kvs ''course'' of None \<Rightarrow> PNone | Some v \<Rightarrow> v)"
  by (simp add: update_args_def)

lemma omitted_field_null:
  assumes "f \<in> set required_fields" and "map_of kvs f = None"
    and "update_args (PDict kvs) = Inr args" and "bind_values pg args = Inr cols"
  shows "has_null cols"
proof -
  from assms(1) consider "f = ''name''" | "f = ''email''" | "f = ''age''" | "f = ''course''"
    by (auto simp: required_fields_def)
  then show ?thesis
  proof cases
    case 1
    with assms(2-4) show ?thesis
      by (auto simp: update_args_dict bind_values_Inr has_null_def)
  next
    case 2
    with assms(2-4) show ?thesis
      by (auto simp: update_args_dict bind_values_Inr has_null_def)
  next
    case 3
    with assms(2-4) show ?thesis
      by (auto simp: update_args_dict bind_values_Inr has_null_def)
  next
    case 4
    with assms(2-4) show ?thesis
      by (auto simp: update_args_dict bind_values_Inr has_null_def)
  qed
qed

text \<open>What the handler does with the outcome of the UPDATE, the row being there.\<close>

lemma update_student_raise:
  assumes "reachable w" and "find (\<lambda>r. sid r = i) (students (db w)) = Some s"
    and "update_args data = Inr args"
    and "update_returning pg \<lparr>base = students (db w), cur = db w\<rparr> args i = (Inl x, c')"
  shows "fst (update_student pg i data w) =
           (if is_IntegrityError x then Inr (error_json ''Email already exists'', 409)
            else Inr (error_json ''Failed to update student'', 500)) \<and>
         db (snd (update_student pg i data w)) = db w"
proof -
  from update_returning_cases [OF assms(4)]
  have c: "c' = \<lparr>base = students (db w), cur = db w\<rparr>" by auto
  with assms show ?thesis
    by (simp add: update_student_def get_db_connection_def select_by_id_def close_conn_def
          rollback_def)
qed

lemma update_returning_null:
  assumes "bind_values pg args = Inr cols" and "has_null cols"
    and "\<exists>r \<in> set (students (cur c)). sid r = i"
  shows "update_returning pg c args i = (Inl NotNullViolation, c)"
  using assms by (auto simp: update_returning_def Let_def)

lemma update_returning_dup:
  assumes "bind_values pg args = Inr cols" and "\<not> has_null cols"
    and "\<exists>r \<in> set (students (cur c)). sid r = i"
    and "\<exists>r \<in> set (students (cur c)). sid r \<noteq> i \<and> email r = fst (snd cols)"
  shows "update_returning pg c args i = (Inl UniqueViolation, c)"
  using assms by (auto simp: update_returning_def Let_def)

subsection \<open>Outcomes of the update handler\<close>



subsection \<open>Outcomes of the create handler\<close>

lemma insert_returning_Inr:
  assumes "insert_returning pg c args = (Inr r, c')"
  shows "\<exists>cols. bind_values pg args = Inr cols \<and> \<not> has_null cols \<and>
           email r = fst (snd cols) \<and> email r \<notin> email ` set (students (cur c)) \<and>
           students (cur c') = students (cur c) @ [r] \<and> base c' = base c"
proof (cases "bind_values pg args")
  case (Inl x)
  with assms show ?thesis by (simp add: insert_returning_def)
next
  case (Inr cols)
  obtain n e a co where cols: "cols = (n, e, a, co)" by (cases cols) auto
  from assms Inr cols show ?thesis
    by (auto simp: insert_returning_def Let_def split: if_splits)
qed

lemma insert_returning_taken:
  assumes "bind_values pg args = Inr cols"
    and "fst (snd cols) \<in> email ` set (students (cur c))"
  shows "\<exists>x c'. insert_returning pg c args = (Inl x, c') \<and> is_IntegrityError x \<and>
           students (cur c') = students (cur c) \<and> base c' = base c"
proof -
  obtain n e a co where cols: "cols = (n, e, a, co)" by (cases cols) auto
  from assms cols show ?thesis
    by (auto simp: insert_returning_def Let_def is_IntegrityError_def)
qed

lemma insert_returning_rejected:
  "bind_values pg args = Inl x \<Longrightarrow> insert_returning pg c args = (Inl DataError, c)"
  using bind_values_Inl [of pg args x] by (simp add: insert_returning_def)

lemma create_args_dict:
  assumes "map_of kvs ''name'' = Some vn" "map_of kvs ''email'' = Some ve"
    "map_of kvs ''age'' = Some va" "map_of kvs ''course'' = Some vc"
  shows "create_args (PDict kvs) = Inr (vn, ve, va, vc)"
    and "first_missing (PDict kvs) required_fields = Inr None"
  using assms by (simp_all add: create_args_def first_missing_dict required_fields_def)

text \<open>What the handler does with the outcome of the INSERT, all four keys being there.\<close>

lemma create_student_dict:
  assumes "reachable w"
    and "map_of kvs ''name'' = Some vn" "map_of kvs ''email'' = Some ve"
    "map_of kvs ''age'' = Some va" "map_of kvs ''course'' = Some vc"
    and "insert_returning pg \<lparr>base = students (db w), cur = db w\<rparr> (vn, ve, va, vc) = (res, c')"
  shows "create_student pg (PDict kvs) w =
     (case res of
        Inr new_student \<Rightarrow> (Inr (row_dict new_student, 201),
                            close_conn (commit c') (w\<lparr>connects := connects w + 1\<rparr>))
      | Inl x \<Rightarrow>
          if is_IntegrityError x
          then (Inr (error_json ''Email already exists'', 409),
                close_conn (rollback c') (w\<lparr>connects := connects w + 1\<rparr>))
          else (Inr (error_json ''Failed to create student'', 500),
                close_conn (rollback c') (w\<lparr>connects := connects w + 1\<rparr>)))"
  using assms(1,6) create_args_dict [OF assms(2-5)]
  by (simp add: create_student_def get_db_connection_def split: sum.splits)

lemma all_present:
  assumes "find (\<lambda>f. map_of kvs f = None) required_fields = None"
  shows "\<exists>vn ve va vc. map_of kvs ''name'' = Some vn \<and> map_of kvs ''email'' = Some ve \<and>
           map_of kvs ''age'' = Some va \<and> map_of kvs ''course'' = Some vc"
  using assms by (auto simp: required_fields_def split: if_splits)

lemma create_student_201_dict:
  assumes "create_student pg (PDict kvs) w = (Inr (body, 201), w1)"
  shows "reachable w \<and>
     (\<exists>vn ve va vc r c1.
        map_of kvs ''name'' = Some vn \<and> map_of kvs ''email'' = Some ve \<and>
        map_of kvs ''age'' = Some va \<and> map_of kvs ''course'' = Some vc \<and>
        insert_returning pg \<lparr>base = students (db w), cur = db w\<rparr> (vn, ve, va, vc) = (Inr r, c1) \<and>
        w1 = close_conn (commit c1) (w\<lparr>connects := connects w + 1\<rparr>))"
proof (cases "find (\<lambda>f. map_of kvs f = None) required_fields")
  case (Some g)
  from create_student_400 [OF Some, of pg w] assms show ?thesis by simp
next
  case None
  from all_present [OF None] obtain vn ve va vc where
    p: "map_of kvs ''name'' = Some vn" "map_of kvs ''email'' = Some ve"
       "map_of kvs ''age'' = Some va" "map_of kvs ''course'' = Some vc" by blast
  have re: "reachable w"
  proof (rule ccontr)
    assume "\<not> reachable w"
    with assms create_args_dict(2) [OF p] show False
      by (simp add: create_student_def get_db_connection_def)
  qed
  obtain res c1 where
    ins: "insert_returning pg \<lparr>base = students (db w), cur = db w\<rparr> (vn, ve, va, vc) = (res, c1)"
    by (cases "insert_returning pg \<lparr>base = students (db w), cur = db w\<rparr> (vn, ve, va, vc)") auto
  from create_student_dict [OF re p ins] assms
  obtain r where "res = Inr r" "w1 = close_conn (commit c1) (w\<lparr>connects := connects w + 1\<rparr>)"
    by (cases res) (auto split: if_splits)
  with re p ins show ?thesis by blast
qed


lemma filter_email_one:
  "email r \<notin> email ` set rows \<Longrightarrow> length (filter (\<lambda>x. email x = email r) (rows @ [r])) = 1"
proof -
  assume "email r \<notin> email ` set rows"
  then have "filter (\<lambda>x. email x = email r) rows = []"
    by (metis (mono_tags, lifting) filter_False imageI)
  then show ?thesis by simp
qed

subsection \<open>Shape of the returned responses\<close>

lemma has_key_error_json [simp]: "has_key (error_json msg) ''error''"
  by (simp add: has_key_def error_json_def)

lemma has_key_row_dict [simp]: "\<not> has_key (row_dict r) ''error''"
  by (simp add: has_key_def row_dict_def)

lemma has_key_PList [simp]: "\<not> has_key (PList xs) k"
  by (simp add: has_key_def)

text \<open>
  Every response that a handler returns has an error key exactly when its status is not 2xx.
\<close>

lemma response_shape:
  assumes "fst (handle pg q w) = Inr (body, st)"
  shows "((st = 200 \<or> st = 201) \<and> \<not> has_key body ''error'') \<or>
         ((st = 400 \<or> st = 404 \<or> st = 409 \<or> st = 500) \<and> has_key body ''error'')"
proof (cases q)
  case Health
  with assms show ?thesis by (auto simp: health_check_def has_key_def)
next
  case ListStudents
  with assms show ?thesis
    by (auto simp: get_students_def get_db_connection_def Let_def split: if_splits)
next
  case (GetStudent i)
  with assms show ?thesis
    by (auto simp: get_student_def get_db_connection_def Let_def split: if_splits option.splits)
next
  case (CreateStudent data)
  with assms create_student_cases [of pg data w] show ?thesis by auto
next
  case (UpdateStudent i data)
  with assms update_student_cases [of pg i data w] show ?thesis by auto
next
  case (DeleteStudent i)
  have "\<not> has_key (PDict [(''message'', PStr ''Student deleted successfully'')]) ''error''"
    by (simp add: has_key_def)
  with DeleteStudent assms delete_student_cases [of i w] show ?thesis by auto
qed

section \<open>Validation of a create request\<close>

text \<open>
  C3, as the code has it. A create request whose payload is a JSON object that lacks one of the
  keys name, email, age, course is answered 400 with the message naming the first absent field
  in that order, and the world is as before. Only the presence of the keys is checked: a
  payload that has all four keys is never answered 400, whatever the values are.
\<close>

theorem create_missing_field:
  "((\<exists>f \<in> set required_fields. map_of kvs f = None) \<longrightarrow>
      (\<exists>g. find (\<lambda>f. map_of kvs f = None) required_fields = Some g \<and>
           create_student pg (PDict kvs) w =
             (Inr (error_json (''Missing required field: '' @ g), 400), w))) \<and>
   ((\<forall>f \<in> set required_fields. map_of kvs f \<noteq> None) \<longrightarrow>
      status (fst (create_student pg (PDict kvs) w)) \<noteq> Some 400)"
proof (intro conjI impI)
  assume "\<exists>f \<in> set required_fields. map_of kvs f = None"
  then obtain g where g: "find (\<lambda>f. map_of kvs f = None) required_fields = Some g"
    using find_absent [of _ required_fields "\<lambda>f. map_of kvs f = None"] by blast
  then show "\<exists>g. find (\<lambda>f. map_of kvs f = None) required_fields = Some g \<and>
           create_student pg (PDict kvs) w =
             (Inr (error_json (''Missing required field: '' @ g), 400), w)"
    by (simp add: create_student_400)
next
  assume all: "\<forall>f \<in> set required_fields. map_of kvs f \<noteq> None"
  then have "find (\<lambda>f. map_of kvs f = None) required_fields = None"
    by (simp add: find_None_iff)
  then show "status (fst (create_student pg (PDict kvs) w)) \<noteq> Some 400"
    by (auto simp: create_student_def first_missing_dict get_db_connection_def Let_def status_def
          split: sum.splits prod.splits option.splits if_splits)
qed

theorem create_missing_field_witness:
  "(\<exists>f \<in> set required_fields. map_of [(''name'', PStr ''Ann''), (''age'', PInt 20)] f = None) \<and>
   create_student plain_types (PDict [(''name'', PStr ''Ann''), (''age'', PInt 20)]) fresh =
     (Inr (error_json ''Missing required field: email'', 400), fresh) \<and>
   status (fst (create_student plain_types
      (PDict [(''name'', PStr ''''), (''email'', PInt 7), (''age'', PStr ''x''),
              (''course'', PNone)]) fresh)) \<noteq> Some 400"
proof -
  let ?p = "[(''name'', PStr ''Ann''), (''age'', PInt 20)]"
  let ?q = "[(''name'', PStr ''''), (''email'', PInt 7), (''age'', PStr ''x''), (''course'', PNone)]"
  have a: "\<exists>f \<in> set required_fields. map_of ?p f = None"
    by (simp add: required_fields_def)
  have b: "\<forall>f \<in> set required_fields. map_of ?q f \<noteq> None"
    by (simp add: required_fields_def)
  from create_missing_field [of ?p plain_types fresh] a
  have "\<exists>g. find (\<lambda>f. map_of ?p f = None) required_fields = Some g \<and>
           create_student plain_types (PDict ?p) fresh =
             (Inr (error_json (''Missing required field: '' @ g), 400), fresh)"
    by blast
  moreover have "find (\<lambda>f. map_of ?p f = None) required_fields = Some ''email''"
    by (simp add: required_fields_def)
  ultimately have c: "create_student plain_types (PDict ?p) fresh =
             (Inr (error_json ''Missing required field: email'', 400), fresh)"
    by auto
  from create_missing_field [of ?q plain_types fresh] b
  have d: "status (fst (create_student plain_types (PDict ?q) fresh)) \<noteq> Some 400"
    by blast
  from a c d show ?thesis by blast
qed

text \<open>
  Payloads that are not JSON objects have none of the four keys, and none of them is answered
  400: the number 5 makes the validation loop raise TypeError, and the array of the four
  names, like the string that holds them, passes the loop and is answered 500.
\<close>

theorem create_non_object_payload_counterexample:
  "create_student plain_types (PInt 5) fresh = (Inl TypeError, fresh) \<and>
   fst (create_student plain_types
          (PList [PStr ''name'', PStr ''email'', PStr ''age'', PStr ''course'']) fresh) =
     Inr (error_json ''Failed to create student'', 500) \<and>
   fst (create_student plain_types (PStr ''name email age course'') fresh) =
     Inr (error_json ''Failed to create student'', 500)"
  by (simp add: handler_defs sample_defs)

text \<open>
  C10, as the code has it. When the payload is a JSON object and a required field is missing,
  the 400 response is produced before any connection is opened: the world is returned as it
  was, so the number of connection attempts and the table are unchanged, and the response is
  the same when the store cannot be reached.
\<close>

theorem create_missing_field_before_connect:
  assumes "f \<in> set required_fields" and "map_of kvs f = None"
  shows "status (fst (create_student pg (PDict kvs) w)) = Some 400 \<and>
         snd (create_student pg (PDict kvs) w) = w \<and>
         connects (snd (create_student pg (PDict kvs) w)) = connects w \<and>
         table (snd (create_student pg (PDict kvs) w)) = table w \<and>
         fst (create_student pg (PDict kvs) (w\<lparr>reachable := False\<rparr>)) =
           fst (create_student pg (PDict kvs) w)"
proof -
  obtain g where g: "find (\<lambda>f. map_of kvs f = None) required_fields = Some g"
    using find_absent [OF assms(1), of "\<lambda>f. map_of kvs f = None"] assms(2) by blast
  show ?thesis
    by (simp add: create_student_400 [OF g] status_def)
qed

theorem create_missing_field_before_connect_witness:
  "''course'' \<in> set required_fields \<and>
   map_of [(''name'', PStr ''Ann'')] ''course'' = None \<and>
   status (fst (create_student plain_types (PDict [(''name'', PStr ''Ann'')]) fresh)) = Some 400 \<and>
   connects (snd (create_student plain_types (PDict [(''name'', PStr ''Ann'')]) fresh)) = 0 \<and>
   status (fst (create_student plain_types (PDict [(''name'', PStr ''Ann'')])
                  (fresh\<lparr>reachable := False\<rparr>))) = Some 400"
proof -
  have a: "''course'' \<in> set required_fields" by (simp add: required_fields_def)
  have b: "map_of [(''name'', PStr ''Ann'')] ''course'' = None" by simp
  have c: "connects fresh = 0" by (simp add: fresh_def)
  from create_missing_field_before_connect [OF a b, of plain_types fresh] a b c
  show ?thesis by simp
qed

text \<open>
  A payload that is not a JSON object is not answered 400 before the store is contacted: the
  boolean true raises TypeError in the validation loop, and for the array of the four names
  a connection is opened, the answer being 500, and the connection failure itself when the
  store cannot be reached.
\<close>

theorem create_array_payload_contacts_store_counterexample:
  "create_student plain_types (PBool True) fresh = (Inl TypeError, fresh) \<and>
   connects fresh = 0 \<and>
   fst (create_student plain_types
          (PList [PStr ''name'', PStr ''email'', PStr ''age'', PStr ''course'']) fresh) =
     Inr (error_json ''Failed to create student'', 500) \<and>
   connects (snd (create_student plain_types
          (PList [PStr ''name'', PStr ''email'', PStr ''age'', PStr ''course'']) fresh)) = 1 \<and>
   fst (create_student plain_types
          (PList [PStr ''name'', PStr ''email'', PStr ''age'', PStr ''course''])
          (fresh\<lparr>reachable := False\<rparr>)) =
     Inr (error_json ''Database connection failed'', 500)"
  by (simp add: handler_defs sample_defs)

section \<open>Update\<close>

text \<open>
  C4. With the store reachable, an update whose id matches no stored row is answered 404
  and leaves the database, and so the table, unchanged, whatever the payload is.
\<close>

theorem update_unknown_id:
  assumes "reachable w" and "\<forall>r \<in> set (table w). sid r \<noteq> student_id"
  shows "fst (update_student pg student_id data w) = Inr (error_json ''Student not found'', 404) \<and>
         db (snd (update_student pg student_id data w)) = db w \<and>
         table (snd (update_student pg student_id data w)) = table w"
  using assms find_no_row [of "students (db w)" student_id]
  by (simp add: update_student_def get_db_connection_reachable select_by_id_def close_conn_def
        table_def)

theorem update_unknown_id_witness:
  "reachable ann_world \<and> find (\<lambda>r. sid r = 7) (table ann_world) = None \<and>
   fst (update_student plain_types 7 ann ann_world) = Inr (error_json ''Student not found'', 404) \<and>
   table (snd (update_student plain_types 7 ann ann_world)) = [ann_row]"
proof -
  have a: "reachable ann_world" by (simp add: ann_world_def)
  have b: "\<forall>r \<in> set (table ann_world). sid r \<noteq> 7"
    by (simp add: ann_world_def table_def ann_row_def)
  have c: "table ann_world = [ann_row]" by (simp add: ann_world_def table_def)
  from update_unknown_id [OF a b, of plain_types ann] a c show ?thesis
    by (simp add: ann_row_def)
qed

section \<open>Shape of the responses\<close>

text \<open>
  C8, at the failing input. A create request whose JSON body is \<^verbatim>\<open>null\<close> makes
  \<^verbatim>\<open>'name' not in data\<close> raise TypeError in the validation loop, which is outside the
  try block: the handler returns no response at all, so no JSON object with an error key.
  (Every response that a handler does return has the shape the claim asks for: see
  \<open>response_shape\<close>.)
\<close>

theorem create_student_null_payload:
  "create_student pg PNone w = (Inl TypeError, w)"
  by (simp add: create_student_def required_fields_def)

theorem create_student_null_payload_witness:
  "create_student plain_types PNone fresh = (Inl TypeError, fresh)"
  using create_student_null_payload [of plain_types fresh] by simp

section \<open>The invariant of the table\<close>

text \<open>
  C7. The constraints of the table (unique id, unique email, and name, email, age, course
  never null) are kept by create, by update and by delete, whatever the request is; and they
  hold in every state that a sequence of requests reaches from the empty table.
\<close>

theorem table_ok_invariant:
  "(table_ok (table w) \<longrightarrow> table_ok (table (snd (create_student pg data w)))) \<and>
   (table_ok (table w) \<longrightarrow> table_ok (table (snd (update_student pg i data w)))) \<and>
   (table_ok (table w) \<longrightarrow> table_ok (table (snd (delete_student i w)))) \<and>
   (table w = [] \<longrightarrow> table_ok (table (snd (run pg reqs w))))"
proof -
  have "table w = [] \<Longrightarrow> table_ok (table w)" by (simp add: table_ok_def)
  then show ?thesis
    using table_ok_create table_ok_update_student table_ok_delete table_ok_run by blast
qed

theorem table_ok_invariant_witness:
  "table_ok (table ann_world) \<and>
   table_ok (table (snd (create_student plain_types ann ann_world))) \<and>
   table_ok (table (snd (update_student plain_types 1 ann ann_world))) \<and>
   table_ok (table (snd (delete_student 1 ann_world))) \<and>
   table fresh = [] \<and>
   table_ok (table (snd (run plain_types
      [CreateStudent ann, UpdateStudent 1 (PDict [(''name'', PStr ''Ann B'')]), DeleteStudent 1]
      fresh)))"
proof -
  have a: "table_ok (table ann_world)"
    by (simp add: table_ok_def table_def ann_world_def ann_row_def not_null_def)
  have b: "table fresh = []"
    by (simp add: table_def fresh_def)
  from a b
    table_ok_invariant [where w = ann_world and pg = plain_types and data = ann and i = 1]
    table_ok_invariant [where w = fresh and pg = plain_types and
      reqs = "[CreateStudent ann, UpdateStudent 1 (PDict [(''name'', PStr ''Ann B'')]),
               DeleteStudent 1]"]
  show ?thesis by blast
qed

section \<open>Delete\<close>

text \<open>
  C6. With the store reachable: a delete whose id matches no stored row is answered 404 and
  leaves the table as it was; otherwise it is answered 200 with the confirmation message, the
  committed table is the old one without the rows of that id, a get on the same id is then
  answered 404, and a get on any other id is answered as before the delete.
\<close>

theorem delete_student_removes:
  assumes "reachable w"
  shows "((\<forall>r \<in> set (table w). sid r \<noteq> i) \<longrightarrow>
            fst (delete_student i w) = Inr (error_json ''Student not found'', 404) \<and>
            table (snd (delete_student i w)) = table w) \<and>
         ((\<exists>r \<in> set (table w). sid r = i) \<longrightarrow>
            fst (delete_student i w) =
              Inr (PDict [(''message'', PStr ''Student deleted successfully'')], 200) \<and>
            table (snd (delete_student i w)) = filter (\<lambda>r. sid r \<noteq> i) (table w) \<and>
            fst (get_student i (snd (delete_student i w))) =
              Inr (error_json ''Student not found'', 404) \<and>
            (\<forall>j. j \<noteq> i \<longrightarrow>
               fst (get_student j (snd (delete_student i w))) = fst (get_student j w)))"
proof (intro conjI impI)
  assume no: "\<forall>r \<in> set (table w). sid r \<noteq> i"
  then have f: "filter (\<lambda>r. sid r = i) (table w) = []" by (simp add: filter_empty_conv)
  show "fst (delete_student i w) = Inr (error_json ''Student not found'', 404)"
    using assms f by (simp add: delete_student_eq)
  show "table (snd (delete_student i w)) = table w"
    using assms f by (simp add: delete_student_eq table_def)
next
  assume ex: "\<exists>r \<in> set (table w). sid r = i"
  then have f: "filter (\<lambda>r. sid r = i) (table w) \<noteq> []" by (simp add: filter_empty_conv)
  have r: "reachable (snd (delete_student i w))" using assms by (simp add: reachable_delete)
  show "fst (delete_student i w) =
          Inr (PDict [(''message'', PStr ''Student deleted successfully'')], 200)"
    using assms f by (simp add: delete_student_eq)
  show t: "table (snd (delete_student i w)) = filter (\<lambda>r. sid r \<noteq> i) (table w)"
    using assms f by (simp add: delete_student_eq table_def)
  show "fst (get_student i (snd (delete_student i w))) =
          Inr (error_json ''Student not found'', 404)"
    by (simp add: get_student_eq [OF r] t find_filter_same)
  show "\<forall>j. j \<noteq> i \<longrightarrow>
          fst (get_student j (snd (delete_student i w))) = fst (get_student j w)"
    by (simp add: get_student_eq [OF r] get_student_eq [OF assms] t find_filter_other)
qed

theorem delete_student_removes_witness:
  "reachable ann_world \<and>
   fst (delete_student 7 ann_world) = Inr (error_json ''Student not found'', 404) \<and>
   table (snd (delete_student 7 ann_world)) = [ann_row] \<and>
   (\<exists>r \<in> set (table ann_world). sid r = 1) \<and>
   fst (delete_student 1 ann_world) =
     Inr (PDict [(''message'', PStr ''Student deleted successfully'')], 200) \<and>
   table (snd (delete_student 1 ann_world)) = [] \<and>
   fst (get_student 1 (snd (delete_student 1 ann_world))) =
     Inr (error_json ''Student not found'', 404)"
proof -
  have a: "reachable ann_world" by (simp add: ann_world_def)
  have t: "table ann_world = [ann_row]" by (simp add: ann_world_def table_def)
  have b: "\<forall>r \<in> set (table ann_world). sid r \<noteq> 7" by (simp add: t ann_row_def)
  have c: "\<exists>r \<in> set (table ann_world). sid r = 1" by (simp add: t ann_row_def)
  have d: "filter (\<lambda>r. sid r \<noteq> 1) (table ann_world) = []" by (simp add: t ann_row_def)
  from delete_student_removes [OF a, of 7] b t
  have "fst (delete_student 7 ann_world) = Inr (error_json ''Student not found'', 404) \<and>
        table (snd (delete_student 7 ann_world)) = [ann_row]" by simp
  moreover from delete_student_removes [OF a, of 1] c d
  have "fst (delete_student 1 ann_world) =
     Inr (PDict [(''message'', PStr ''Student deleted successfully'')], 200) \<and>
   table (snd (delete_student 1 ann_world)) = [] \<and>
   fst (get_student 1 (snd (delete_student 1 ann_world))) =
     Inr (error_json ''Student not found'', 404)" by simp
  ultimately show ?thesis using a c by blast
qed

section \<open>List\<close>

text \<open>
  C5. With the store reachable, the list operation is answered 200 with the records of all
  stored rows (the same rows with the same multiplicity) in ascending order of id. After N
  create requests that are each answered 201, made in a row on an empty table, it returns
  exactly N records, and their ids are strictly ascending.
\<close>

theorem get_students_sorted:
  "(reachable w \<longrightarrow>
      (\<exists>rows. fst (get_students w) = Inr (PList (map row_dict rows), 200) \<and>
         mset rows = mset (table w) \<and> sorted (map sid rows))) \<and>
   (reachable w0 \<and> table w0 = [] \<and> run pg (map CreateStudent ds) w0 = (rs, w) \<and>
    list_all (\<lambda>r. status r = Some 201) rs \<longrightarrow>
      (\<exists>rows. fst (get_students w) = Inr (PList (map row_dict rows), 200) \<and>
         mset rows = mset (table w) \<and> length rows = length ds \<and>
         sorted_wrt (<) (map sid rows)))"
proof (intro conjI impI)
  assume "reachable w"
  then show "\<exists>rows. fst (get_students w) = Inr (PList (map row_dict rows), 200) \<and>
         mset rows = mset (table w) \<and> sorted (map sid rows)"
    by (intro exI [of _ "sort_key sid (table w)"]) (simp add: get_students_eq)
next
  assume a: "reachable w0 \<and> table w0 = [] \<and> run pg (map CreateStudent ds) w0 = (rs, w) \<and>
    list_all (\<lambda>r. status r = Some 201) rs"
  then have "length (table w) = length (table w0) + length ds \<and> distinct (map sid (table w)) \<and>
         reachable w = reachable w0"
    by (intro run_creates [of pg ds w0 rs w]) simp_all
  with a have len: "length (table w) = length ds" and dis: "distinct (map sid (table w))"
    and re: "reachable w" by simp_all
  let ?rows = "sort_key sid (table w)"
  have "distinct (map sid ?rows)"
    using dis by (metis distinct_map distinct_sort set_sort)
  then have "sorted_wrt (<) (map sid ?rows)" by (simp add: strict_sorted_iff)
  with len re show "\<exists>rows. fst (get_students w) = Inr (PList (map row_dict rows), 200) \<and>
         mset rows = mset (table w) \<and> length rows = length ds \<and>
         sorted_wrt (<) (map sid rows)"
    by (intro exI [of _ ?rows]) (simp add: get_students_eq)
qed


theorem get_students_sorted_witness:
  "reachable two_world \<and> reachable fresh \<and> table fresh = [] \<and>
   run plain_types (map CreateStudent [ann, bob]) fresh =
     ([Inr (row_dict ann_row, 201), Inr (row_dict bob_row, 201)], two_world) \<and>
   (\<exists>rows. fst (get_students two_world) = Inr (PList (map row_dict rows), 200) \<and>
      mset rows = mset (table two_world) \<and> length rows = 2 \<and> sorted_wrt (<) (map sid rows))"
proof -
  have a: "reachable two_world" "reachable fresh" "table fresh = []"
    by (simp_all add: two_world_def fresh_def table_def)
  have b: "run plain_types (map CreateStudent [ann, bob]) fresh =
     ([Inr (row_dict ann_row, 201), Inr (row_dict bob_row, 201)], two_world)"
    by (simp add: create_ann create_bob)
  have c: "list_all (\<lambda>r. status r = Some 201)
             [Inr (row_dict ann_row, 201), Inr (row_dict bob_row, 201)]"
    by (simp add: status_def)
  from a b c
    get_students_sorted [where w = two_world and ?w0.0 = fresh and pg = plain_types and
      ds = "[ann, bob]" and rs = "[Inr (row_dict ann_row, 201), Inr (row_dict bob_row, 201)]"]
  have "\<exists>rows. fst (get_students two_world) = Inr (PList (map row_dict rows), 200) \<and>
      mset rows = mset (table two_world) \<and> length rows = length [ann, bob] \<and>
      sorted_wrt (<) (map sid rows)"
    by blast
  then have "\<exists>rows. fst (get_students two_world) = Inr (PList (map row_dict rows), 200) \<and>
      mset rows = mset (table two_world) \<and> length rows = 2 \<and> sorted_wrt (<) (map sid rows)"
    by (simp add: numeral_2_eq_2)
  with a b show ?thesis by blast
qed

section \<open>Integrity errors on update\<close>

text \<open>
  C9. With the store reachable and a row of the given id stored: whenever the UPDATE raises an
  integrity error, the handler answers 409 with the message 'Email already exists' and the
  database is as before (the write is rolled back). This is so for a not-null violation, which
  a payload that omits one of the four fields gives once the store has typed the values, as
  much as for an email that another row holds.
\<close>

theorem update_integrity_error:
  assumes "reachable w" and "\<exists>r \<in> set (table w). sid r = i"
    and "update_args data = Inr args"
  shows
    "(\<forall>x c'. update_returning pg \<lparr>base = students (db w), cur = db w\<rparr> args i = (Inl x, c') \<and>
         is_IntegrityError x \<longrightarrow>
         fst (update_student pg i data w) = Inr (error_json ''Email already exists'', 409) \<and>
         db (snd (update_student pg i data w)) = db w) \<and>
     (\<forall>kvs f cols. data = PDict kvs \<and> f \<in> set required_fields \<and> map_of kvs f = None \<and>
         bind_values pg args = Inr cols \<longrightarrow>
         fst (update_student pg i data w) = Inr (error_json ''Email already exists'', 409) \<and>
         db (snd (update_student pg i data w)) = db w) \<and>
     (\<forall>cols r. bind_values pg args = Inr cols \<and> r \<in> set (table w) \<and> sid r \<noteq> i \<and>
         email r = fst (snd cols) \<longrightarrow>
         fst (update_student pg i data w) = Inr (error_json ''Email already exists'', 409) \<and>
         db (snd (update_student pg i data w)) = db w)"
proof -
  let ?c = "\<lparr>base = students (db w), cur = db w\<rparr>"
  let ?R = "fst (update_student pg i data w) = Inr (error_json ''Email already exists'', 409) \<and>
         db (snd (update_student pg i data w)) = db w"
  from assms(2) obtain s where s: "find (\<lambda>r. sid r = i) (students (db w)) = Some s"
    using find_sid_ex [of "students (db w)" i] by (auto simp: table_def)
  have ex: "\<exists>r \<in> set (students (cur ?c)). sid r = i"
    using assms(2) by (simp add: table_def)
  have raise: "?R" if "update_returning pg ?c args i = (Inl x, c')" "is_IntegrityError x" for x c'
    using update_student_raise [OF assms(1) s assms(3) that(1)] that(2) by simp
  have null: "?R" if "bind_values pg args = Inr cols" "has_null cols" for cols
    using raise [OF update_returning_null [OF that ex]] by (simp add: is_IntegrityError_def)
  have dup: "?R" if "bind_values pg args = Inr cols" "r \<in> set (table w)" "sid r \<noteq> i"
      "email r = fst (snd cols)" for cols r
  proof (cases "has_null cols")
    case True
    with that(1) show ?thesis by (rule null)
  next
    case False
    have "\<exists>r \<in> set (students (cur ?c)). sid r \<noteq> i \<and> email r = fst (snd cols)"
      using that(2-4) by (auto simp: table_def)
    from raise [OF update_returning_dup [OF that(1) False ex this]] show ?thesis
      by (simp add: is_IntegrityError_def)
  qed
  have omit: "?R" if "data = PDict kvs" "f \<in> set required_fields" "map_of kvs f = None"
      "bind_values pg args = Inr cols" for kvs f cols
    using null [OF that(4)] omitted_field_null [OF that(2,3) _ that(4)] assms(3) that(1) by simp
  from raise omit dup show ?thesis by blast
qed


theorem update_integrity_error_witness:
  "reachable ann_world \<and> (\<exists>r \<in> set (table ann_world). sid r = 1) \<and>
   fst (update_student plain_types 1 (PDict [(''name'', PStr ''Ann B'')]) ann_world) =
     Inr (error_json ''Email already exists'', 409) \<and>
   db (snd (update_student plain_types 1 (PDict [(''name'', PStr ''Ann B'')]) ann_world)) =
     db ann_world \<and>
   fst (update_student plain_types 2 ann two_world) =
     Inr (error_json ''Email already exists'', 409) \<and>
   db (snd (update_student plain_types 2 ann two_world)) = db two_world"
proof -
  let ?kvs = "[(''name'', PStr ''Ann B'')]"
  have a: "reachable ann_world" "reachable two_world"
    by (simp_all add: ann_world_def two_world_def)
  have b: "\<exists>r \<in> set (table ann_world). sid r = 1" "\<exists>r \<in> set (table two_world). sid r = 2"
    by (simp_all add: ann_world_def two_world_def table_def ann_row_def bob_row_def)
  have c: "update_args (PDict ?kvs) = Inr (PStr ''Ann B'', PNone, PNone, PNone)"
    by (simp add: update_args_def)
  have d: "bind_values plain_types (PStr ''Ann B'', PNone, PNone, PNone) =
             Inr (Some ''Ann B'', None, None, None)"
    by (simp add: bind_values_def bind_varchar_def bind_integer_def plain_types_def)
  have e: "''email'' \<in> set required_fields" "map_of ?kvs ''email'' = None"
    by (simp_all add: required_fields_def)
  have c2: "update_args ann = Inr (PStr ''Ann'', PStr ''ann@x.com'', PInt 20, PStr ''CS'')"
    by (simp add: update_args_def ann_def)
  have d2: "bind_values plain_types (PStr ''Ann'', PStr ''ann@x.com'', PInt 20, PStr ''CS'') =
             Inr (Some ''Ann'', Some ''ann@x.com'', Some 20, Some ''CS'')"
    by (simp add: bind_values_def bind_varchar_def bind_integer_def plain_types_def)
  have e2: "ann_row \<in> set (table two_world)" "sid ann_row \<noteq> 2"
    "email ann_row = fst (snd (Some ''Ann'', Some ''ann@x.com'', Some (20::int), Some ''CS''))"
    by (simp_all add: two_world_def table_def ann_row_def)
  from update_integrity_error [OF a(1) b(1) c, of plain_types] d e
  have "fst (update_student plain_types 1 (PDict ?kvs) ann_world) =
          Inr (error_json ''Email already exists'', 409) \<and>
        db (snd (update_student plain_types 1 (PDict ?kvs) ann_world)) = db ann_world"
    by blast
  moreover from update_integrity_error [OF a(2) b(2) c2, of plain_types] d2 e2
  have "fst (update_student plain_types 2 ann two_world) =
          Inr (error_json ''Email already exists'', 409) \<and>
        db (snd (update_student plain_types 2 ann two_world)) = db two_world"
    by blast
  ultimately show ?thesis using a(1) b(1) by blast
qed

section \<open>Update of an existing row\<close>




section \<open>Duplicate email on create\<close>

text \<open>
  C2, as the code has it. Once a create request has stored its row (201), a second create
  request that has all four fields and the same email fails: it is answered 409 'Email
  already exists' when the column types take its name, age and course, and 500 when they
  reject one of them. Either way the table is as the first request left it (the failed write
  is rolled back), and it holds exactly one row with that email, before and after the second
  request.
\<close>

theorem create_duplicate_email:
  assumes "create_student pg (PDict kvs1) w = (Inr (body1, 201), w1)"
    and "map_of kvs1 ''email'' = Some ve"
    and "map_of kvs2 ''name'' = Some vn" and "map_of kvs2 ''email'' = Some ve"
    and "map_of kvs2 ''age'' = Some va" and "map_of kvs2 ''course'' = Some vc"
  shows "\<exists>e. to_varchar pg ve = Some e \<and>
           length (filter (\<lambda>r. email r = Some e) (table w1)) = 1 \<and>
           (status (fst (create_student pg (PDict kvs2) w1)) = Some 409 \<or>
            status (fst (create_student pg (PDict kvs2) w1)) = Some 500) \<and>
           table (snd (create_student pg (PDict kvs2) w1)) = table w1 \<and>
           length (filter (\<lambda>r. email r = Some e)
                     (table (snd (create_student pg (PDict kvs2) w1)))) = 1 \<and>
           ((\<exists>n a c. bind_varchar pg vn = Inr n \<and> bind_integer pg va = Inr a \<and>
                     bind_varchar pg vc = Inr c) \<longrightarrow>
              fst (create_student pg (PDict kvs2) w1) =
                Inr (error_json ''Email already exists'', 409)) \<and>
           ((\<exists>y. bind_varchar pg vn = Inl y \<or> bind_integer pg va = Inl y \<or>
                 bind_varchar pg vc = Inl y) \<longrightarrow>
              fst (create_student pg (PDict kvs2) w1) =
                Inr (error_json ''Failed to create student'', 500))"
proof -
  let ?c = "\<lparr>base = students (db w), cur = db w\<rparr>"
  let ?c1 = "\<lparr>base = students (db w1), cur = db w1\<rparr>"
  let ?w1' = "w1\<lparr>connects := connects w1 + 1\<rparr>"
  from create_student_201_dict [OF assms(1)] assms(2)
  obtain vn1 va1 vc1 r c1 where re: "reachable w"
    and ins: "insert_returning pg ?c (vn1, ve, va1, vc1) = (Inr r, c1)"
    and w1: "w1 = close_conn (commit c1) (w\<lparr>connects := connects w + 1\<rparr>)"
    by auto
  from insert_returning_Inr [OF ins] obtain cols where
    b: "bind_values pg (vn1, ve, va1, vc1) = Inr cols" and nn: "\<not> has_null cols"
    and em: "email r = fst (snd cols)" and fr: "email r \<notin> email ` set (students (db w))"
    and st: "students (cur c1) = students (db w) @ [r]"
    by auto
  from b have bve: "bind_varchar pg ve = Inr (fst (snd cols))"
    by (auto simp: bind_values_Inr)
  from nn obtain e where e: "fst (snd cols) = Some e"
    by (cases cols) (auto simp: has_null_def)
  from bve e have tv: "to_varchar pg ve = Some e"
    by (auto simp: bind_varchar_def split: if_splits option.splits)
  have t1: "table w1 = students (db w) @ [r]"
    using w1 st by (simp add: table_def close_conn_def commit_def)
  have re1: "reachable w1" using w1 re by simp
  have one: "length (filter (\<lambda>x. email x = Some e) (table w1)) = 1"
    using filter_email_one [OF fr] em e t1 by simp
  have taken: "Some e \<in> email ` set (students (cur ?c1))"
    using t1 em e by (force simp: table_def)
  have "\<exists>x c'. insert_returning pg ?c1 (vn, ve, va, vc) = (Inl x, c') \<and>
          students (cur c') = students (db w1) \<and> base c' = students (db w1) \<and>
          ((\<exists>n a c. bind_varchar pg vn = Inr n \<and> bind_integer pg va = Inr a \<and>
                     bind_varchar pg vc = Inr c) \<longrightarrow> is_IntegrityError x) \<and>
          ((\<exists>y. bind_varchar pg vn = Inl y \<or> bind_integer pg va = Inl y \<or>
                 bind_varchar pg vc = Inl y) \<longrightarrow> x = DataError)"
  proof (cases "bind_values pg (vn, ve, va, vc)")
    case (Inl x)
    then have "\<not> (\<exists>n a c. bind_varchar pg vn = Inr n \<and> bind_integer pg va = Inr a \<and>
                     bind_varchar pg vc = Inr c)"
      using bve by (auto simp: bind_values_def)
    with insert_returning_rejected [OF Inl, of ?c1] show ?thesis by auto
  next
    case (Inr cols2)
    then have "fst (snd cols2) = Some e"
      using bve e by (auto simp: bind_values_Inr)
    moreover from Inr have "\<not> (\<exists>y. bind_varchar pg vn = Inl y \<or> bind_integer pg va = Inl y \<or>
                 bind_varchar pg vc = Inl y)"
      by (auto simp: bind_values_Inr)
    ultimately show ?thesis using insert_returning_taken [OF Inr, of ?c1] taken by auto
  qed
  then obtain x c' where
    ins2: "insert_returning pg ?c1 (vn, ve, va, vc) = (Inl x, c')"
    and keep: "students (cur c') = students (db w1)" "base c' = students (db w1)"
    and integ: "(\<exists>n a c. bind_varchar pg vn = Inr n \<and> bind_integer pg va = Inr a \<and>
                     bind_varchar pg vc = Inr c) \<longrightarrow> is_IntegrityError x"
    and rej: "(\<exists>y. bind_varchar pg vn = Inl y \<or> bind_integer pg va = Inl y \<or>
                 bind_varchar pg vc = Inl y) \<longrightarrow> x = DataError"
    by blast
  note second = create_student_dict [OF re1 assms(3-6) ins2]
  have s2: "status (fst (create_student pg (PDict kvs2) w1)) = Some 409 \<or>
            status (fst (create_student pg (PDict kvs2) w1)) = Some 500"
    using second by (simp add: status_def)
  have t2: "table (snd (create_student pg (PDict kvs2) w1)) = table w1"
    using second keep by (simp add: table_def close_conn_def rollback_def)
  have r2: "(\<exists>n a c. bind_varchar pg vn = Inr n \<and> bind_integer pg va = Inr a \<and>
                     bind_varchar pg vc = Inr c) \<longrightarrow>
              fst (create_student pg (PDict kvs2) w1) =
                Inr (error_json ''Email already exists'', 409)"
    using second integ by simp
  have r3: "(\<exists>y. bind_varchar pg vn = Inl y \<or> bind_integer pg va = Inl y \<or>
                 bind_varchar pg vc = Inl y) \<longrightarrow>
              fst (create_student pg (PDict kvs2) w1) =
                Inr (error_json ''Failed to create student'', 500)"
    using second rej by (auto simp: is_IntegrityError_def)
  from tv one s2 t2 r2 r3 show ?thesis by simp
qed

theorem create_duplicate_email_witness:
  "create_student plain_types ann fresh = (Inr (row_dict ann_row, 201), ann_world) \<and>
   length (filter (\<lambda>r. email r = Some ''ann@x.com'') (table ann_world)) = 1 \<and>
   fst (create_student plain_types
          (PDict [(''name'', PStr ''Ann Two''), (''email'', PStr ''ann@x.com''),
                  (''age'', PInt 31), (''course'', PStr ''Math'')]) ann_world) =
     Inr (error_json ''Email already exists'', 409) \<and>
   table (snd (create_student plain_types
          (PDict [(''name'', PStr ''Ann Two''), (''email'', PStr ''ann@x.com''),
                  (''age'', PInt 31), (''course'', PStr ''Math'')]) ann_world)) = [ann_row] \<and>
   bind_integer plain_types (PStr ''abc'') = Inl DataError \<and>
   fst (create_student plain_types
          (PDict [(''name'', PStr ''Ann Two''), (''email'', PStr ''ann@x.com''),
                  (''age'', PStr ''abc''), (''course'', PStr ''Math'')]) ann_world) =
     Inr (error_json ''Failed to create student'', 500) \<and>
   table (snd (create_student plain_types
          (PDict [(''name'', PStr ''Ann Two''), (''email'', PStr ''ann@x.com''),
                  (''age'', PStr ''abc''), (''course'', PStr ''Math'')]) ann_world)) = [ann_row]"
proof -
  let ?k1 = "[(''name'', PStr ''Ann''), (''email'', PStr ''ann@x.com''), (''age'', PInt 20),
              (''course'', PStr ''CS'')]"
  let ?k2 = "[(''name'', PStr ''Ann Two''), (''email'', PStr ''ann@x.com''),
              (''age'', PInt 31), (''course'', PStr ''Math'')]"
  let ?k3 = "[(''name'', PStr ''Ann Two''), (''email'', PStr ''ann@x.com''),
              (''age'', PStr ''abc''), (''course'', PStr ''Math'')]"
  have a: "create_student plain_types (PDict ?k1) fresh = (Inr (row_dict ann_row, 201), ann_world)"
    using create_ann by (simp add: ann_def)
  have b: "map_of ?k1 ''email'' = Some (PStr ''ann@x.com'')"
    "map_of ?k2 ''name'' = Some (PStr ''Ann Two'')"
    "map_of ?k2 ''email'' = Some (PStr ''ann@x.com'')"
    "map_of ?k2 ''age'' = Some (PInt 31)" "map_of ?k2 ''course'' = Some (PStr ''Math'')"
    by simp_all
  have b3: "map_of ?k3 ''name'' = Some (PStr ''Ann Two'')"
    "map_of ?k3 ''email'' = Some (PStr ''ann@x.com'')"
    "map_of ?k3 ''age'' = Some (PStr ''abc'')" "map_of ?k3 ''course'' = Some (PStr ''Math'')"
    by simp_all
  have c: "\<exists>n a c. bind_varchar plain_types (PStr ''Ann Two'') = Inr n \<and>
             bind_integer plain_types (PInt 31) = Inr a \<and>
             bind_varchar plain_types (PStr ''Math'') = Inr c"
    by (simp add: bind_varchar_def bind_integer_def plain_types_def)
  have c3: "bind_integer plain_types (PStr ''abc'') = Inl DataError"
    by (simp add: bind_integer_def plain_types_def)
  have d: "to_varchar plain_types (PStr ''ann@x.com'') = Some ''ann@x.com''"
    by (simp add: plain_types_def)
  have t: "table ann_world = [ann_row]" by (simp add: ann_world_def table_def)
  from create_duplicate_email [OF a b] c d
  have x: "length (filter (\<lambda>r. email r = Some ''ann@x.com'') (table ann_world)) = 1 \<and>
        fst (create_student plain_types (PDict ?k2) ann_world) =
          Inr (error_json ''Email already exists'', 409) \<and>
        table (snd (create_student plain_types (PDict ?k2) ann_world)) = table ann_world"
    by auto
  from create_duplicate_email [OF a b(1) b3] c3
  have y: "fst (create_student plain_types (PDict ?k3) ann_world) =
          Inr (error_json ''Failed to create student'', 500) \<and>
        table (snd (create_student plain_types (PDict ?k3) ann_world)) = table ann_world"
    by auto
  from a t x y c3 show ?thesis by (simp add: ann_def)
qed

text \<open>
  Ann is stored by a first create request answered 201. A second create request with the same
  email and all four fields, whose age is the string x, is answered 500 and not 409: the
  store rejects the age before it looks at the email.
\<close>

theorem create_duplicate_rejected_age_counterexample:
  "create_student plain_types ann fresh = (Inr (row_dict ann_row, 201), ann_world) \<and>
   table ann_world = [ann_row] \<and>
   fst (create_student plain_types
          (PDict [(''name'', PStr ''Ann''), (''email'', PStr ''ann@x.com''),
                  (''age'', PStr ''x''), (''course'', PStr ''CS'')]) ann_world) =
     Inr (error_json ''Failed to create student'', 500)"
  by (simp add: handler_defs sample_defs table_def is_IntegrityError_def)

end
